theory Spec2Isabelle
  imports Complex_Main "HOL-Library.Word"
begin

section \<open>Dashboard backend: documents, store and request handlers\<close>

text \<open>
  The development embeds the Express handlers of the dashboard backend
  (\<^verbatim>\<open>listingController\<close>, \<^verbatim>\<open>scriptController\<close>, \<^verbatim>\<open>videoController\<close>) together with
  the Mongoose schemas they work on. A handler is a function from the store to a
  response and the store after the request. Conventions:
  \<^item> a document id is the ObjectId itself (a number); malformed id strings are not modelled;
  \<^item> \<^verbatim>\<open>new Date()\<close> is the parameter \<open>now\<close> of the handler;
  \<^item> a JavaScript string is a list of code units below 256;
  \<^item> the integers that the handlers compute with are mathematical integers (JavaScript
    is exact on them below \<open>2^53\<close>), and \<^verbatim>\<open>NaN\<close> is \<open>None\<close>;
  \<^item> the timestamps that Mongoose maintains by itself (\<^verbatim>\<open>createdAt\<close>,
    \<^verbatim>\<open>updatedAt\<close> of \<^verbatim>\<open>timestamps: true\<close>) are left out.
\<close>

subsection \<open>Documents (types/index.ts and the model schemas)\<close>

type_synonym ObjectId = nat
type_synonym date = nat
type_synonym byte = "8 word"

datatype ListingStatus =
    L_pending | L_images_downloaded | L_images_processed
  | L_script_generated | L_script_approved | L_voiceover_generated
  | L_video_generated | L_video_approved | L_published | L_error

datatype Condition = New | Used | Certified

record ListingAssets =
  a_originalPhotos :: "string list"
  a_processedPhotos :: "string list"
  a_script :: "ObjectId option"
  a_voiceoverPath :: "string option"
  a_qrCodePath :: "string option"
  a_videoPath :: "string option"

record Listing =
  l_id :: ObjectId
  l_dealerId :: string
  l_stockNumber :: string
  l_vin :: string
  l_year :: int
  l_make :: string
  l_model :: string
  l_trim :: "string option"
  l_condition :: Condition
  l_price :: real
  l_odometer :: "real option"
  l_color :: "string option"
  l_photoUrls :: "string list"
  l_listingUrl :: string
  l_status :: ListingStatus
  l_assets :: ListingAssets

datatype ScriptStatus = S_draft | S_pending_approval | S_approved | S_rejected

record ScriptVersion =
  sv_content :: string
  sv_createdAt :: date
  sv_createdBy :: string

record Script =
  s_id :: ObjectId
  s_listingId :: string
  s_content :: string
  s_wordCount :: int
  s_estimatedDuration :: int
  s_status :: ScriptStatus
  s_approvedBy :: "string option"
  s_approvedAt :: "date option"
  s_rejectionReason :: "string option"
  s_versions :: "ScriptVersion list"

datatype VideoStatus = V_processing | V_ready | V_approved | V_rejected | V_published

record Video =
  v_id :: ObjectId
  v_listingId :: string
  v_dealerId :: string
  v_path :: string
  v_duration :: real
  v_resolution :: string
  v_fileSize :: int
  v_status :: VideoStatus
  v_approvedBy :: "string option"
  v_approvedAt :: "date option"
  v_publishedAt :: "date option"
  v_fastChannelId :: "string option"
  v_thumbnailPath :: "string option"

datatype JobType =
    import_csv | download_images | process_images
  | generate_script | generate_voiceover | generate_video
  | regenerate_video | publish_video

datatype JobStatus = J_queued | J_processing | J_completed | J_failed

record Job =
  j_id :: ObjectId
  j_type :: JobType
  j_dealerId :: string
  j_listingId :: "string option"
  j_status :: JobStatus
  j_progress :: real
  j_error :: "string option"
  j_startedAt :: "date option"
  j_completedAt :: "date option"

text \<open>The result interface of \<^verbatim>\<open>PipelineService\<close>.\<close>

record PipelineResult =
  pr_success :: bool
  pr_output :: "string option"
  pr_error :: "string option"

subsection \<open>The store, the file system and the effects on the outside\<close>

text \<open>
  The collections are lists in natural order: \<^verbatim>\<open>findOne\<close> and
  \<^verbatim>\<open>findOneAndUpdate\<close> take the first document that matches. The file system maps a
  path to the bytes of the file there. The trace records, in the order in which the
  handlers perform them, the two effects that leave the process: the removal of a file and
  the start of the video pipeline.
\<close>

datatype effect =
    FsUnlink string
  | PipelineGenerateVideo string string PipelineResult

record state =
  listings :: "Listing list"
  scripts :: "Script list"
  videos :: "Video list"
  jobs :: "Job list"
  files :: "string \<rightharpoonup> byte list"
  trace :: "effect list"

subsection \<open>Responses\<close>

datatype exn = ValidationError | ERR_OUT_OF_RANGE

datatype err = Msg string | Thrown exn

datatype payload = NoData | ListingData Listing | ScriptData Script | VideoData Video

record ApiResponse =
  r_success :: bool
  r_data :: payload
  r_error :: "err option"
  r_message :: "string option"

datatype response =
    Json nat ApiResponse
  | Stream nat "(string \<times> string) list" "byte list"

fun code :: "response \<Rightarrow> nat" where
  "code (Json c b) = c"
| "code (Stream c hs bs) = c"

definition ok :: "payload \<Rightarrow> string \<Rightarrow> response" where
  "ok d m = Json 200 \<lparr>r_success = True, r_data = d, r_error = None, r_message = Some m\<rparr>"

definition failed :: "nat \<Rightarrow> string \<Rightarrow> response" where
  "failed c m = Json c \<lparr>r_success = False, r_data = NoData, r_error = Some (Msg m), r_message = None\<rparr>"

definition caught :: "nat \<Rightarrow> exn \<Rightarrow> response" where
  "caught c e = Json c \<lparr>r_success = False, r_data = NoData, r_error = Some (Thrown e), r_message = None\<rparr>"

subsection \<open>JavaScript strings and numbers\<close>

text \<open>The characters that \<^verbatim>\<open>\s\<close> matches among the code units below 256.\<close>

definition is_space :: "char \<Rightarrow> bool" where
  "is_space c = (of_char c \<in> {9, 10, 11, 12, 13, 32, 160 :: nat})"

text \<open>
  \<^verbatim>\<open>s.split(/\s+/)\<close>: the pieces between the maximal runs of white space. A run at
  the start or at the end leaves an empty piece there, and the empty string gives one
  empty piece.
\<close>

function split_ws_from :: "string \<Rightarrow> string \<Rightarrow> string list" where
  "split_ws_from cur [] = [rev cur]"
| "split_ws_from cur (c # cs) =
     (if is_space c then rev cur # split_ws_from [] (dropWhile is_space cs)
      else split_ws_from (c # cur) cs)"
  by pat_completeness auto
termination
  by (relation "measure (\<lambda>(cur, s). length s)")
     (auto simp: length_dropWhile_le less_Suc_eq_le)

definition js_split_ws :: "string \<Rightarrow> string list" where
  "js_split_ws s = split_ws_from [] s"

text \<open>\<^verbatim>\<open>Math.ceil(wordCount / 2.5)\<close>.\<close>

definition estimated_duration :: "int \<Rightarrow> int" where
  "estimated_duration wc = \<lceil>real_of_int wc / 2.5\<rceil>"

text \<open>\<^verbatim>\<open>x || d\<close> on an optional string: absent and empty are both falsy.\<close>

definition or_default :: "string option \<Rightarrow> string \<Rightarrow> string" where
  "or_default x d = (case x of None \<Rightarrow> d | Some s \<Rightarrow> if s = [] then d else s)"

text \<open>\<^verbatim>\<open>s.replace(/pat/, rep)\<close> for a literal pattern: the first occurrence only.\<close>

fun js_replace_first :: "string \<Rightarrow> string \<Rightarrow> string \<Rightarrow> string" where
  "js_replace_first pat rep [] = (if pat = [] then rep else [])"
| "js_replace_first pat rep (c # cs) =
     (if take (length pat) (c # cs) = pat then rep @ drop (length pat) (c # cs)
      else c # js_replace_first pat rep cs)"

text \<open>\<^verbatim>\<open>s.split(sep)\<close> for a separator of one character.\<close>

fun js_split :: "char \<Rightarrow> string \<Rightarrow> string list" where
  "js_split sep [] = [[]]"
| "js_split sep (c # cs) =
     (if c = sep then [] # js_split sep cs
      else (case js_split sep cs of [] \<Rightarrow> [[c]] | w # ws \<Rightarrow> (c # w) # ws))"

definition is_digit :: "char \<Rightarrow> bool" where
  "is_digit c = (48 \<le> (of_char c :: nat) \<and> (of_char c :: nat) \<le> 57)"

definition digits_value :: "string \<Rightarrow> nat" where
  "digits_value ds = foldl (\<lambda>a c. 10 * a + (of_char c - 48)) 0 ds"

text \<open>
  \<^verbatim>\<open>parseInt(s, 10)\<close>: leading white space is skipped, one sign is read, then the
  longest run of decimal digits; with no digit the result is \<^verbatim>\<open>NaN\<close>.
\<close>

definition parseInt :: "string \<Rightarrow> int option" where
  "parseInt s =
     (let s1 = dropWhile is_space s;
          neg = (case s1 of [] \<Rightarrow> False | c # _ \<Rightarrow> c = CHR ''-'');
          s2 = (case s1 of [] \<Rightarrow> [] | c # r \<Rightarrow> if c = CHR ''-'' \<or> c = CHR ''+'' then r else s1);
          ds = takeWhile is_digit s2
      in if ds = [] then None
         else Some (if neg then - int (digits_value ds) else int (digits_value ds)))"

text \<open>The decimal digits of a natural number, as \<^verbatim>\<open>String(n)\<close> prints them.\<close>

function dec :: "nat \<Rightarrow> string" where
  "dec n = (if n < 10 then [char_of (48 + n)] else dec (n div 10) @ [char_of (48 + n mod 10)])"
  by pat_completeness auto
termination
  by (relation "measure id") auto

declare dec.simps [simp del]

definition js_num_str :: "int option \<Rightarrow> string" where
  "js_num_str x =
     (case x of None \<Rightarrow> ''NaN''
      | Some i \<Rightarrow> if i < 0 then CHR ''-'' # dec (nat (- i)) else dec (nat i))"

subsection \<open>Mongoose queries and schema validation\<close>

definition findById :: "('a \<Rightarrow> ObjectId) \<Rightarrow> 'a list \<Rightarrow> ObjectId \<Rightarrow> 'a option" where
  "findById idf docs i = find (\<lambda>d. idf d = i) docs"

text \<open>\<^verbatim>\<open>findOneAndUpdate\<close>: the first matching document is changed, no validator runs.\<close>

fun findOneAndUpdate :: "('a \<Rightarrow> bool) \<Rightarrow> ('a \<Rightarrow> 'a) \<Rightarrow> 'a list \<Rightarrow> 'a list" where
  "findOneAndUpdate P f [] = []"
| "findOneAndUpdate P f (d # ds) = (if P d then f d # ds else d # findOneAndUpdate P f ds)"

fun deleteOne :: "('a \<Rightarrow> bool) \<Rightarrow> 'a list \<Rightarrow> 'a list" where
  "deleteOne P [] = []"
| "deleteOne P (d # ds) = (if P d then ds else d # deleteOne P ds)"

text \<open>
  \<^verbatim>\<open>doc.save()\<close> validates the document against its schema and throws when a
  \<^verbatim>\<open>required\<close> string is empty. The enumerations and the required numbers hold by
  the types of the records.
\<close>

definition listing_valid :: "Listing \<Rightarrow> bool" where
  "listing_valid l =
     (l_dealerId l \<noteq> [] \<and> l_stockNumber l \<noteq> [] \<and> l_vin l \<noteq> [] \<and> l_make l \<noteq> []
      \<and> l_model l \<noteq> [] \<and> l_listingUrl l \<noteq> [])"

definition script_valid :: "Script \<Rightarrow> bool" where
  "script_valid s =
     (s_listingId s \<noteq> [] \<and> s_content s \<noteq> []
      \<and> list_all (\<lambda>v. sv_content v \<noteq> []) (s_versions s))"

definition video_valid :: "Video \<Rightarrow> bool" where
  "video_valid v =
     (v_listingId v \<noteq> [] \<and> v_dealerId v \<noteq> [] \<and> v_path v \<noteq> [] \<and> v_resolution v \<noteq> [])"

definition save_listing :: "Listing \<Rightarrow> state \<Rightarrow> exn + state" where
  "save_listing d st =
     (if listing_valid d
      then Inr (st\<lparr>listings := findOneAndUpdate (\<lambda>x. l_id x = l_id d) (\<lambda>_. d) (listings st)\<rparr>)
      else Inl ValidationError)"

definition save_script :: "Script \<Rightarrow> state \<Rightarrow> exn + state" where
  "save_script d st =
     (if script_valid d
      then Inr (st\<lparr>scripts := findOneAndUpdate (\<lambda>x. s_id x = s_id d) (\<lambda>_. d) (scripts st)\<rparr>)
      else Inl ValidationError)"

definition save_video :: "Video \<Rightarrow> state \<Rightarrow> exn + state" where
  "save_video d st =
     (if video_valid d
      then Inr (st\<lparr>videos := findOneAndUpdate (\<lambda>x. v_id x = v_id d) (\<lambda>_. d) (videos st)\<rparr>)
      else Inl ValidationError)"

subsection \<open>File system and pipeline service\<close>

definition existsSync :: "state \<Rightarrow> string \<Rightarrow> bool" where
  "existsSync st p = (files st p \<noteq> None)"

definition unlinkSync :: "string \<Rightarrow> state \<Rightarrow> state" where
  "unlinkSync p st = st\<lparr>files := (files st)(p := None), trace := trace st @ [FsUnlink p]\<rparr>"

text \<open>
  \<^verbatim>\<open>pipelineService.generateVideo\<close> starts the Python process and returns a promise
  of its result. The result \<open>outcome\<close> is what the outside gives; the callers below do
  not wait for it.
\<close>

definition generateVideo :: "PipelineResult \<Rightarrow> string \<Rightarrow> string \<Rightarrow> state \<Rightarrow> PipelineResult \<times> state" where
  "generateVideo outcome listingId dealerId st =
     (outcome, st\<lparr>trace := trace st @ [PipelineGenerateVideo listingId dealerId outcome]\<rparr>)"

text \<open>
  \<^verbatim>\<open>fs.createReadStream(path, {start, end})\<close>: both bounds are inclusive and must be
  integers with \<open>0 \<le> start \<le> end\<close>, or the call throws.
\<close>

definition createReadStream :: "byte list \<Rightarrow> int option \<Rightarrow> int option \<Rightarrow> exn + byte list" where
  "createReadStream bytes start end' =
     (case (start, end') of
        (Some s, Some e) \<Rightarrow>
          if 0 \<le> s \<and> 0 \<le> e \<and> s \<le> e then Inr (take (nat (e - s + 1)) (drop (nat s) bytes))
          else Inl ERR_OUT_OF_RANGE
      | _ \<Rightarrow> Inl ERR_OUT_OF_RANGE)"

subsection \<open>listingController\<close>

definition listingController_updatePhotos ::
  "ObjectId \<Rightarrow> string list \<Rightarrow> string \<Rightarrow> state \<Rightarrow> response \<times> state" where
  "listingController_updatePhotos lid photoUrls action st =
     (case findById l_id (listings st) lid of
        None \<Rightarrow> (failed 404 ''Listing not found'', st)
      | Some listing \<Rightarrow>
          if action \<noteq> ''add'' \<and> action \<noteq> ''remove'' \<and> action \<noteq> ''replace''
          then (failed 400 ''Invalid action'', st)
          else
            let urls = (if action = ''add'' then l_photoUrls listing @ photoUrls
                        else if action = ''remove''
                        then filter (\<lambda>url. url \<notin> set photoUrls) (l_photoUrls listing)
                        else photoUrls);
                listing' = listing\<lparr>l_photoUrls := urls, l_status := L_pending\<rparr>
            in (case save_listing listing' st of
                  Inl e \<Rightarrow> (caught 400 e, st)
                | Inr st1 \<Rightarrow> (ok (ListingData listing') ''Photos updated'', st1)))"

definition listingController_regenerateVideo ::
  "PipelineResult \<Rightarrow> ObjectId \<Rightarrow> state \<Rightarrow> response \<times> state" where
  "listingController_regenerateVideo outcome lid st =
     (case findById l_id (listings st) lid of
        None \<Rightarrow> (failed 404 ''Listing not found'', st)
      | Some listing \<Rightarrow>
          let st1 = (case a_videoPath (l_assets listing) of
                       None \<Rightarrow> st
                     | Some p \<Rightarrow> if p \<noteq> [] \<and> existsSync st p then unlinkSync p st else st);
              listing' = listing\<lparr>l_status := L_voiceover_generated,
                                 l_assets := (l_assets listing)\<lparr>a_videoPath := None\<rparr>\<rparr>
          in (case save_listing listing' st1 of
                Inl e \<Rightarrow> (caught 500 e, st1)
              | Inr st2 \<Rightarrow>
                  let st3 = snd (generateVideo outcome (l_stockNumber listing') (l_dealerId listing') st2)
                  in (ok (ListingData listing') ''Video regeneration started'', st3)))"

definition listingController_delete :: "ObjectId \<Rightarrow> state \<Rightarrow> response \<times> state" where
  "listingController_delete lid st =
     (case findById l_id (listings st) lid of
        None \<Rightarrow> (failed 404 ''Listing not found'', st)
      | Some listing \<Rightarrow>
          (ok NoData ''Listing deleted'',
           st\<lparr>listings := deleteOne (\<lambda>d. l_id d = lid) (listings st),
              scripts := deleteOne (\<lambda>d. s_listingId d = l_stockNumber listing) (scripts st),
              videos := deleteOne (\<lambda>d. v_listingId d = l_stockNumber listing) (videos st)\<rparr>))"

subsection \<open>scriptController\<close>

definition scriptController_update ::
  "date \<Rightarrow> ObjectId \<Rightarrow> string \<Rightarrow> string option \<Rightarrow> state \<Rightarrow> response \<times> state" where
  "scriptController_update now sid content editedBy st =
     (case findById s_id (scripts st) sid of
        None \<Rightarrow> (failed 404 ''Script not found'', st)
      | Some script \<Rightarrow>
          let pushed = script\<lparr>s_versions := s_versions script @
                         [\<lparr>sv_content = s_content script, sv_createdAt = now,
                           sv_createdBy = or_default editedBy ''admin''\<rparr>]\<rparr>;
              wordCount = int (length (js_split_ws content));
              script' = pushed\<lparr>s_content := content, s_wordCount := wordCount,
                               s_estimatedDuration := estimated_duration wordCount,
                               s_status := S_pending_approval\<rparr>
          in (case save_script script' st of
                Inl e \<Rightarrow> (caught 400 e, st)
              | Inr st1 \<Rightarrow>
                  (ok (ScriptData script') ''Script updated'',
                   st1\<lparr>listings := findOneAndUpdate (\<lambda>l. l_stockNumber l = s_listingId script')
                                      (\<lambda>l. l\<lparr>l_status := L_script_generated\<rparr>) (listings st1)\<rparr>)))"

definition scriptController_approve ::
  "date \<Rightarrow> ObjectId \<Rightarrow> string option \<Rightarrow> state \<Rightarrow> response \<times> state" where
  "scriptController_approve now sid approvedBy st =
     (case findById s_id (scripts st) sid of
        None \<Rightarrow> (failed 404 ''Script not found'', st)
      | Some found \<Rightarrow>
          let script = found\<lparr>s_status := S_approved,
                             s_approvedBy := Some (or_default approvedBy ''admin''),
                             s_approvedAt := Some now\<rparr>;
              st1 = st\<lparr>scripts := findOneAndUpdate (\<lambda>d. s_id d = sid) (\<lambda>_. script) (scripts st)\<rparr>
          in (ok (ScriptData script) ''Script approved'',
              st1\<lparr>listings := findOneAndUpdate (\<lambda>l. l_stockNumber l = s_listingId script)
                                 (\<lambda>l. l\<lparr>l_status := L_script_approved\<rparr>) (listings st1)\<rparr>))"

text \<open>The reason is the string that the body carries; a body without a reason is not modelled.\<close>

definition scriptController_reject :: "ObjectId \<Rightarrow> string \<Rightarrow> state \<Rightarrow> response \<times> state" where
  "scriptController_reject sid reason st =
     (case findById s_id (scripts st) sid of
        None \<Rightarrow> (failed 404 ''Script not found'', st)
      | Some found \<Rightarrow>
          let script = found\<lparr>s_status := S_rejected, s_rejectionReason := Some reason\<rparr>
          in (ok (ScriptData script) ''Script rejected'',
              st\<lparr>scripts := findOneAndUpdate (\<lambda>d. s_id d = sid) (\<lambda>_. script) (scripts st)\<rparr>))"

definition scriptController_revertVersion ::
  "date \<Rightarrow> ObjectId \<Rightarrow> int \<Rightarrow> state \<Rightarrow> response \<times> state" where
  "scriptController_revertVersion now sid versionIndex st =
     (case findById s_id (scripts st) sid of
        None \<Rightarrow> (failed 404 ''Script not found'', st)
      | Some script \<Rightarrow>
          if versionIndex < 0 \<or> versionIndex \<ge> int (length (s_versions script))
          then (failed 400 ''Invalid version index'', st)
          else
            let pushed = script\<lparr>s_versions := s_versions script @
                           [\<lparr>sv_content = s_content script, sv_createdAt = now,
                             sv_createdBy = ''admin (revert)''\<rparr>]\<rparr>;
                content = sv_content (s_versions pushed ! nat versionIndex);
                wordCount = int (length (js_split_ws content));
                script' = pushed\<lparr>s_content := content, s_wordCount := wordCount,
                                 s_estimatedDuration := estimated_duration wordCount,
                                 s_status := S_pending_approval\<rparr>
            in (case save_script script' st of
                  Inl e \<Rightarrow> (caught 400 e, st)
                | Inr st1 \<Rightarrow> (ok (ScriptData script') ''Reverted to previous version'', st1)))"

subsection \<open>videoController\<close>

definition videoController_approve ::
  "date \<Rightarrow> ObjectId \<Rightarrow> string option \<Rightarrow> state \<Rightarrow> response \<times> state" where
  "videoController_approve now vid approvedBy st =
     (case findById v_id (videos st) vid of
        None \<Rightarrow> (failed 404 ''Video not found'', st)
      | Some found \<Rightarrow>
          let video = found\<lparr>v_status := V_approved,
                            v_approvedBy := Some (or_default approvedBy ''admin''),
                            v_approvedAt := Some now\<rparr>;
              st1 = st\<lparr>videos := findOneAndUpdate (\<lambda>d. v_id d = vid) (\<lambda>_. video) (videos st)\<rparr>
          in (ok (VideoData video) ''Video approved'',
              st1\<lparr>listings := findOneAndUpdate (\<lambda>l. l_stockNumber l = v_listingId video)
                                 (\<lambda>l. l\<lparr>l_status := L_video_approved\<rparr>) (listings st1)\<rparr>))"

definition videoController_reject :: "ObjectId \<Rightarrow> state \<Rightarrow> response \<times> state" where
  "videoController_reject vid st =
     (case findById v_id (videos st) vid of
        None \<Rightarrow> (failed 404 ''Video not found'', st)
      | Some found \<Rightarrow>
          let video = found\<lparr>v_status := V_rejected\<rparr>
          in (ok (VideoData video) ''Video rejected'',
              st\<lparr>videos := findOneAndUpdate (\<lambda>d. v_id d = vid) (\<lambda>_. video) (videos st)\<rparr>))"

definition videoController_publish ::
  "date \<Rightarrow> ObjectId \<Rightarrow> string option \<Rightarrow> state \<Rightarrow> response \<times> state" where
  "videoController_publish now vid channelId st =
     (case findById v_id (videos st) vid of
        None \<Rightarrow> (failed 404 ''Video not found'', st)
      | Some video \<Rightarrow>
          if v_status video \<noteq> V_approved
          then (failed 400 ''Video must be approved before publishing'', st)
          else
            let video' = video\<lparr>v_status := V_published, v_publishedAt := Some now,
                               v_fastChannelId := channelId\<rparr>
            in (case save_video video' st of
                  Inl e \<Rightarrow> (caught 400 e, st)
                | Inr st1 \<Rightarrow>
                    (ok (VideoData video') ''Video published'',
                     st1\<lparr>listings := findOneAndUpdate (\<lambda>l. l_stockNumber l = v_listingId video')
                                        (\<lambda>l. l\<lparr>l_status := L_published\<rparr>) (listings st1)\<rparr>)))"

definition videoController_regenerate ::
  "PipelineResult \<Rightarrow> ObjectId \<Rightarrow> state \<Rightarrow> response \<times> state" where
  "videoController_regenerate outcome vid st =
     (case findById v_id (videos st) vid of
        None \<Rightarrow> (failed 404 ''Video not found'', st)
      | Some video \<Rightarrow>
          let st1 = (if existsSync st (v_path video) then unlinkSync (v_path video) st else st);
              video' = video\<lparr>v_status := V_processing\<rparr>
          in (case save_video video' st1 of
                Inl e \<Rightarrow> (caught 500 e, st1)
              | Inr st2 \<Rightarrow>
                  let st3 = snd (generateVideo outcome (v_listingId video') (v_dealerId video') st2)
                  in (ok (VideoData video') ''Video regeneration started'', st3)))"

definition videoController_stream :: "string option \<Rightarrow> ObjectId \<Rightarrow> state \<Rightarrow> response" where
  "videoController_stream rangeHeader vid st =
     (case findById v_id (videos st) vid of
        None \<Rightarrow> failed 404 ''Video not found''
      | Some video \<Rightarrow>
          (case files st (v_path video) of
             None \<Rightarrow> failed 404 ''Video file not found''
           | Some bytes \<Rightarrow>
               let fileSize = int (length bytes) in
               if rangeHeader \<noteq> None \<and> rangeHeader \<noteq> Some []
               then
                 let parts = js_split CHR ''-''
                               (js_replace_first ''bytes='' [] (or_default rangeHeader []));
                     start = (case parts of [] \<Rightarrow> None | p0 # _ \<Rightarrow> parseInt p0);
                     end' = (case parts of
                               _ # p1 # _ \<Rightarrow> if p1 \<noteq> [] then parseInt p1 else Some (fileSize - 1)
                             | _ \<Rightarrow> Some (fileSize - 1));
                     chunksize = (case (start, end') of
                                    (Some s, Some e) \<Rightarrow> Some (e - s + 1)
                                  | _ \<Rightarrow> None)
                 in (case createReadStream bytes start end' of
                       Inl e \<Rightarrow> caught 500 e
                     | Inr file \<Rightarrow>
                         Stream 206
                           [(''Content-Range'',
                             ''bytes '' @ js_num_str start @ ''-'' @ js_num_str end' @ ''/''
                               @ js_num_str (Some fileSize)),
                            (''Accept-Ranges'', ''bytes''),
                            (''Content-Length'', js_num_str chunksize),
                            (''Content-Type'', ''video/mp4'')]
                           file)
               else
                 Stream 200
                   [(''Content-Length'', js_num_str (Some fileSize)),
                    (''Content-Type'', ''video/mp4'')]
                   bytes))"

definition videoController_delete :: "ObjectId \<Rightarrow> state \<Rightarrow> response \<times> state" where
  "videoController_delete vid st =
     (case findById v_id (videos st) vid of
        None \<Rightarrow> (failed 404 ''Video not found'', st)
      | Some video \<Rightarrow>
          let st1 = st\<lparr>videos := deleteOne (\<lambda>d. v_id d = vid) (videos st)\<rparr>;
              st2 = (if existsSync st1 (v_path video) then unlinkSync (v_path video) st1 else st1)
          in (ok NoData ''Video deleted'',
              st2\<lparr>listings := findOneAndUpdate (\<lambda>l. l_stockNumber l = v_listingId video)
                                 (\<lambda>l. l\<lparr>l_status := L_voiceover_generated,
                                         l_assets := (l_assets l)\<lparr>a_videoPath := None\<rparr>\<rparr>)
                                 (listings st2)\<rparr>))"

subsection \<open>The router: requests that change the store\<close>

datatype request =
    PutListingPhotos ObjectId "string list" string
  | PostListingRegenerateVideo ObjectId PipelineResult
  | DeleteListing ObjectId
  | PutScript ObjectId string "string option"
  | PostScriptApprove ObjectId "string option"
  | PostScriptReject ObjectId string
  | PostScriptRevert ObjectId int
  | PostVideoApprove ObjectId "string option"
  | PostVideoReject ObjectId
  | PostVideoPublish ObjectId "string option"
  | PostVideoRegenerate ObjectId PipelineResult
  | DeleteVideo ObjectId

fun handle :: "date \<Rightarrow> request \<Rightarrow> state \<Rightarrow> response \<times> state" where
  "handle now (PutListingPhotos i urls action) st = listingController_updatePhotos i urls action st"
| "handle now (PostListingRegenerateVideo i outcome) st = listingController_regenerateVideo outcome i st"
| "handle now (DeleteListing i) st = listingController_delete i st"
| "handle now (PutScript i content editedBy) st = scriptController_update now i content editedBy st"
| "handle now (PostScriptApprove i approvedBy) st = scriptController_approve now i approvedBy st"
| "handle now (PostScriptReject i reason) st = scriptController_reject i reason st"
| "handle now (PostScriptRevert i versionIndex) st = scriptController_revertVersion now i versionIndex st"
| "handle now (PostVideoApprove i approvedBy) st = videoController_approve now i approvedBy st"
| "handle now (PostVideoReject i) st = videoController_reject i st"
| "handle now (PostVideoPublish i channelId) st = videoController_publish now i channelId st"
| "handle now (PostVideoRegenerate i outcome) st = videoController_regenerate outcome i st"
| "handle now (DeleteVideo i) st = videoController_delete i st"

text \<open>The store after a sequence of requests, each with the time at which it is served.\<close>

fun serve :: "(date \<times> request) list \<Rightarrow> state \<Rightarrow> state" where
  "serve [] st = st"
| "serve ((now, rq) # rqs) st = serve rqs (snd (handle now rq st))"

text \<open>
  The active jobs of the ledger, and the exclusivity property: no listing id occurs on
  two jobs that are queued or processing.
\<close>

definition active :: "Job \<Rightarrow> bool" where
  "active j = (j_status j = J_queued \<or> j_status j = J_processing)"

definition active_jobs_of :: "string \<Rightarrow> Job list \<Rightarrow> Job list" where
  "active_jobs_of L js = filter (\<lambda>j. j_listingId j = Some L \<and> active j) js"

definition single_active_job :: "Job list \<Rightarrow> bool" where
  "single_active_job js =
     distinct (map j_listingId (filter (\<lambda>j. j_listingId j \<noteq> None \<and> active j) js))"

text \<open>
  The number of words of a text, following the wording of the specification: a word is a
  maximal run of characters that are not white space, counted where it ends.
\<close>

fun word_count :: "string \<Rightarrow> nat" where
  "word_count [] = 0"
| "word_count [c] = (if is_space c then 0 else 1)"
| "word_count (c # d # cs) =
     (if \<not> is_space c \<and> is_space d then 1 else 0) + word_count (d # cs)"

subsection \<open>A store to run the handlers on\<close>

definition example_listing :: Listing where
  "example_listing =
     \<lparr>l_id = 1, l_dealerId = ''D1'', l_stockNumber = ''HD100'', l_vin = ''1HD1KB4'',
      l_year = 2020, l_make = ''Harley-Davidson'', l_model = ''Street Glide'',
      l_trim = None, l_condition = Used, l_price = 18999, l_odometer = None,
      l_color = None, l_photoUrls = [], l_listingUrl = ''https://dealer.example/HD100'',
      l_status = L_published,
      l_assets = \<lparr>a_originalPhotos = [], a_processedPhotos = [], a_script = Some 7,
                   a_voiceoverPath = None, a_qrCodePath = None,
                   a_videoPath = Some ''output/HD100.mp4''\<rparr>\<rparr>"

definition example_script :: Script where
  "example_script =
     \<lparr>s_id = 7, s_listingId = ''HD100'', s_content = ''Ride it home today'',
      s_wordCount = 4, s_estimatedDuration = 2, s_status = S_draft,
      s_approvedBy = None, s_approvedAt = None, s_rejectionReason = None,
      s_versions = []\<rparr>"

definition example_video :: Video where
  "example_video =
     \<lparr>v_id = 9, v_listingId = ''HD100'', v_dealerId = ''D1'', v_path = ''output/HD100.mp4'',
      v_duration = 30, v_resolution = ''1080p'', v_fileSize = 1000, v_status = V_approved,
      v_approvedBy = Some ''admin'', v_approvedAt = Some 3, v_publishedAt = None,
      v_fastChannelId = None, v_thumbnailPath = None\<rparr>"

definition example_job :: Job where
  "example_job =
     \<lparr>j_id = 4, j_type = generate_video, j_dealerId = ''D1'', j_listingId = Some ''HD100'',
      j_status = J_processing, j_progress = 0, j_error = None, j_startedAt = Some 2,
      j_completedAt = None\<rparr>"

definition example_bytes :: "byte list" where
  "example_bytes = map of_nat [0..<1000]"

definition example_state :: state where
  "example_state =
     \<lparr>listings = [example_listing], scripts = [example_script], videos = [example_video],
      jobs = [example_job], files = [''output/HD100.mp4'' \<mapsto> example_bytes], trace = []\<rparr>"

definition pipeline_failure :: PipelineResult where
  "pipeline_failure = \<lparr>pr_success = False, pr_output = None, pr_error = Some ''spawn python ENOENT''\<rparr>"

section \<open>Properties\<close>

subsection \<open>Queries\<close>

lemma find_findOneAndUpdate:
  "(\<And>d. P d \<Longrightarrow> P (f d)) \<Longrightarrow> find P (findOneAndUpdate P f ds) = map_option f (find P ds)"
  by (induction ds) auto

lemma findById_findOneAndUpdate:
  "idf d' = i \<Longrightarrow> findById idf ds i = Some d \<Longrightarrow>
   findById idf (findOneAndUpdate (\<lambda>x. idf x = i) (\<lambda>_. d') ds) i = Some d'"
  unfolding findById_def by (simp add: find_findOneAndUpdate)

lemma findById_id: "findById idf ds i = Some d \<Longrightarrow> idf d = i"
  unfolding findById_def by (auto simp: find_Some_iff)

lemmas example_defs = example_state_def example_listing_def example_script_def
  example_video_def example_job_def

subsection \<open>Reverting a script\<close>

text \<open>
  Claim C5. For a script that exists and a version index that is negative or not below
  the number of stored versions, \<^verbatim>\<open>revertVersion\<close> answers 400 with the error
  ``Invalid version index'' and the store is the one before the call: the content, the
  versions, the word count, the estimated duration and the status of the script are
  untouched.
\<close>

theorem revertVersion_out_of_range:
  assumes "findById s_id (scripts st) sid = Some script"
    and "versionIndex < 0 \<or> versionIndex \<ge> int (length (s_versions script))"
  shows "scriptController_revertVersion now sid versionIndex st
           = (failed 400 ''Invalid version index'', st)"
  using assms by (auto simp: scriptController_revertVersion_def)

theorem revertVersion_out_of_range_witness:
  "findById s_id (scripts example_state) 7 = Some example_script
   \<and> (0::int) \<ge> int (length (s_versions example_script))
   \<and> scriptController_revertVersion 5 7 0 example_state
        = (failed 400 ''Invalid version index'', example_state)
   \<and> scriptController_revertVersion 5 7 (- 1) example_state
        = (failed 400 ''Invalid version index'', example_state)"
proof -
  have f: "findById s_id (scripts example_state) 7 = Some example_script"
    by (simp add: findById_def example_defs)
  have l: "(0::int) \<ge> int (length (s_versions example_script))"
    by (simp add: example_script_def)
  show ?thesis
    using f l revertVersion_out_of_range [OF f, of 0 5]
      revertVersion_out_of_range [OF f, of "- 1" 5]
    by simp
qed

subsection \<open>Editing a script\<close>

text \<open>
  What a successful \<^verbatim>\<open>update\<close> does, and when it succeeds: the script exists, the
  stored document satisfies its schema and the new content is not empty.
\<close>

lemma update_ok:
  assumes "findById s_id (scripts st) sid = Some script"
    and "code (fst (scriptController_update now sid content editedBy st)) = 200"
  defines "script' \<equiv> script\<lparr>s_versions := s_versions script @
                         [\<lparr>sv_content = s_content script, sv_createdAt = now,
                           sv_createdBy = or_default editedBy ''admin''\<rparr>],
                       s_content := content,
                       s_wordCount := int (length (js_split_ws content)),
                       s_estimatedDuration := estimated_duration (int (length (js_split_ws content))),
                       s_status := S_pending_approval\<rparr>"
  shows "script_valid script'"
   and "scriptController_update now sid content editedBy st =
     (ok (ScriptData script') ''Script updated'',
      st\<lparr>scripts := findOneAndUpdate (\<lambda>x. s_id x = sid) (\<lambda>_. script') (scripts st),
         listings := findOneAndUpdate (\<lambda>l. l_stockNumber l = s_listingId script)
                       (\<lambda>l. l\<lparr>l_status := L_script_generated\<rparr>) (listings st)\<rparr>)"
  using assms(1,2) findById_id [OF assms(1)] unfolding script'_def
  by (auto simp: scriptController_update_def save_script_def Let_def caught_def ok_def
      split: if_splits)

lemma update_succeeds:
  assumes "findById s_id (scripts st) sid = Some script" "script_valid script" "content \<noteq> []"
  shows "code (fst (scriptController_update now sid content editedBy st)) = 200"
  using assms
  by (auto simp: scriptController_update_def save_script_def Let_def ok_def script_valid_def)

lemma estimated_duration_eq: "estimated_duration wc = (2 * wc + 4) div 5"
proof -
  have "real_of_int wc / 2.5 = real_of_int (2 * wc) / real_of_int 5" by simp
  then have "estimated_duration wc = \<lceil>real_of_int (2 * wc) / real_of_int 5\<rceil>"
    by (simp only: estimated_duration_def)
  also have "\<dots> = - (- (2 * wc) div 5)" by (rule ceiling_divide_eq_div)
  also have "\<dots> = (2 * wc + 4) div 5" by presburger
  finally show ?thesis .
qed

text \<open>
  Claim C4 (round trip). After a successful \<^verbatim>\<open>update\<close> of a script with new
  content, \<^verbatim>\<open>revertVersion\<close> with the index of the version that the update pushed
  (the number of versions before the update) succeeds, the content is again the content
  before the update, character for character, and the versions are the former versions
  followed by exactly two entries: the content before the update and the new content.
\<close>

theorem update_then_revert_roundtrip:
  fixes now' :: date
  assumes found: "findById s_id (scripts st) sid = Some script"
    and upd: "code (fst (scriptController_update now sid newContent editedBy st)) = 200"
  defines "st1 \<equiv> snd (scriptController_update now sid newContent editedBy st)"
  defines "res \<equiv> scriptController_revertVersion now' sid (int (length (s_versions script))) st1"
  shows "code (fst res) = 200
     \<and> map_option s_content (findById s_id (scripts (snd res)) sid) = Some (s_content script)
     \<and> map_option s_versions (findById s_id (scripts (snd res)) sid)
         = Some (s_versions script @
                  [\<lparr>sv_content = s_content script, sv_createdAt = now,
                    sv_createdBy = or_default editedBy ''admin''\<rparr>,
                   \<lparr>sv_content = newContent, sv_createdAt = now',
                    sv_createdBy = ''admin (revert)''\<rparr>])
     \<and> map_option (length \<circ> s_versions) (findById s_id (scripts (snd res)) sid)
         = Some (length (s_versions script) + 2)"
proof -
  let ?v1 = "\<lparr>sv_content = s_content script, sv_createdAt = now,
              sv_createdBy = or_default editedBy ''admin''\<rparr>"
  let ?s1 = "script\<lparr>s_versions := s_versions script @ [?v1],
                    s_content := newContent,
                    s_wordCount := int (length (js_split_ws newContent)),
                    s_estimatedDuration := estimated_duration (int (length (js_split_ws newContent))),
                    s_status := S_pending_approval\<rparr>"
  have sid: "s_id script = sid" using found by (rule findById_id)
  have valid1: "script_valid ?s1" using update_ok(1) [OF found upd] .
  have st1: "scripts st1 = findOneAndUpdate (\<lambda>x. s_id x = sid) (\<lambda>_. ?s1) (scripts st)"
    unfolding st1_def update_ok(2) [OF found upd] by simp
  have found1: "findById s_id (scripts st1) sid = Some ?s1"
    unfolding st1 using found sid by (intro findById_findOneAndUpdate) simp_all
  have nth: "(s_versions script @ [?v1, v2]) ! length (s_versions script) = ?v1" for v2
    by (simp add: nth_append)
  let ?v2 = "\<lparr>sv_content = newContent, sv_createdAt = now', sv_createdBy = ''admin (revert)''\<rparr>"
  let ?s2 = "?s1\<lparr>s_versions := s_versions ?s1 @ [?v2],
                  s_content := s_content script,
                  s_wordCount := int (length (js_split_ws (s_content script))),
                  s_estimatedDuration := estimated_duration (int (length (js_split_ws (s_content script)))),
                  s_status := S_pending_approval\<rparr>"
  have valid2: "script_valid ?s2"
    using valid1 by (auto simp: script_valid_def)
  have res: "res = (ok (ScriptData ?s2) ''Reverted to previous version'',
                    st1\<lparr>scripts := findOneAndUpdate (\<lambda>x. s_id x = sid) (\<lambda>_. ?s2) (scripts st1)\<rparr>)"
    unfolding res_def scriptController_revertVersion_def found1
    using valid2 sid by (simp add: Let_def save_script_def nth)
  have found2: "findById s_id (scripts (snd res)) sid = Some ?s2"
    unfolding res using found1 sid by (simp add: findById_findOneAndUpdate)
  show ?thesis
    unfolding found2 by (simp add: res ok_def)
qed


theorem update_then_revert_roundtrip_witness:
  "findById s_id (scripts example_state) 7 = Some example_script
   \<and> code (fst (scriptController_update 5 7 ''Buy now'' None example_state)) = 200
   \<and> code (fst (scriptController_revertVersion 6 7 0
              (snd (scriptController_update 5 7 ''Buy now'' None example_state)))) = 200
   \<and> map_option s_content (findById s_id (scripts (snd (scriptController_revertVersion 6 7 0
              (snd (scriptController_update 5 7 ''Buy now'' None example_state))))) 7)
        = Some ''Ride it home today''
   \<and> map_option (length \<circ> s_versions) (findById s_id (scripts (snd (scriptController_revertVersion 6 7 0
              (snd (scriptController_update 5 7 ''Buy now'' None example_state))))) 7)
        = Some 2"
proof -
  have f: "findById s_id (scripts example_state) 7 = Some example_script"
    by (simp add: findById_def example_defs)
  have u: "code (fst (scriptController_update 5 7 ''Buy now'' None example_state)) = 200"
    by (rule update_succeeds [OF f]) (simp_all add: script_valid_def example_script_def)
  have e: "s_content example_script = ''Ride it home today''" "s_versions example_script = []"
    by (simp_all add: example_script_def)
  show ?thesis
    using f u update_then_revert_roundtrip [OF f u, of 6]
    by (simp add: e del: map_option_eq_Some)
qed

text \<open>
  Claim C10. A successful \<^verbatim>\<open>update\<close> sets the status of the parent listing (the
  first listing whose stock number is the script's \<^verbatim>\<open>listingId\<close>) to
  \<^verbatim>\<open>script_generated\<close>, whatever that status was before: nothing is assumed about
  \<open>l_status parent\<close>, and the listing of the example store was already published.
\<close>

theorem update_resets_listing_status:
  assumes found: "findById s_id (scripts st) sid = Some script"
    and upd: "code (fst (scriptController_update now sid content editedBy st)) = 200"
    and parent: "find (\<lambda>l. l_stockNumber l = s_listingId script) (listings st) = Some parent"
  shows "find (\<lambda>l. l_stockNumber l = s_listingId script)
           (listings (snd (scriptController_update now sid content editedBy st)))
         = Some (parent\<lparr>l_status := L_script_generated\<rparr>)"
  unfolding update_ok(2) [OF found upd]
  by (simp add: find_findOneAndUpdate parent)

theorem update_resets_listing_status_witness:
  "findById s_id (scripts example_state) 7 = Some example_script
   \<and> code (fst (scriptController_update 5 7 ''Buy now'' None example_state)) = 200
   \<and> find (\<lambda>l. l_stockNumber l = s_listingId example_script) (listings example_state)
        = Some example_listing
   \<and> l_status example_listing = L_published
   \<and> find (\<lambda>l. l_stockNumber l = s_listingId example_script)
        (listings (snd (scriptController_update 5 7 ''Buy now'' None example_state)))
        = Some (example_listing\<lparr>l_status := L_script_generated\<rparr>)"
proof -
  have f: "findById s_id (scripts example_state) 7 = Some example_script"
    by (simp add: findById_def example_defs)
  have u: "code (fst (scriptController_update 5 7 ''Buy now'' None example_state)) = 200"
    by (rule update_succeeds [OF f]) (simp_all add: script_valid_def example_script_def)
  have p: "find (\<lambda>l. l_stockNumber l = s_listingId example_script) (listings example_state)
        = Some example_listing"
    by (simp add: example_defs)
  have s: "l_status example_listing = L_published"
    by (simp add: example_listing_def)
  show ?thesis
    using f u p s update_resets_listing_status [OF f u p] by simp
qed

text \<open>
  The number of pieces of \<^verbatim>\<open>split(/\s+/)\<close> is the number of words, plus one when
  the text is empty or begins with white space, plus one when it ends with white space.
  So the stored word count is the number of words exactly for a text that is not empty and
  neither begins nor ends with white space.
\<close>

lemma word_count_skip_spaces:
  "is_space c \<Longrightarrow> word_count (c # cs) = word_count (dropWhile is_space cs)"
  by (induction cs arbitrary: c) auto

lemma last_after_spaces:
  assumes "dropWhile is_space cs \<noteq> []"
  shows "last (c # cs) = last (dropWhile is_space cs)"
proof -
  have "cs = takeWhile is_space cs @ dropWhile is_space cs" by simp
  then have "last cs = last (dropWhile is_space cs)"
    using assms by (metis last_appendR)
  moreover have "cs \<noteq> []" using assms by auto
  ultimately show ?thesis by simp
qed

lemma all_spaces_last:
  assumes "is_space c" and "dropWhile is_space cs = []"
  shows "is_space (last (c # cs))"
proof -
  have "\<forall>x\<in>set (c # cs). is_space x"
    using assms by (simp add: dropWhile_eq_Nil_conv)
  moreover have "last (c # cs) \<in> set (c # cs)" by (rule last_in_set) simp
  ultimately show ?thesis by blast
qed

lemma length_split_ws_from:
  "length (split_ws_from cur s) =
     word_count s + (if s = [] \<or> is_space (hd s) then 1 else 0)
       + (if s \<noteq> [] \<and> is_space (last s) then 1 else 0)"
proof (induction cur s rule: split_ws_from.induct)
  case (1 cur)
  show ?case by simp
next
  case (2 cur c cs)
  show ?case
  proof (cases "is_space c")
    case True
    note sp = this
    show ?thesis
    proof (cases "dropWhile is_space cs = []")
      case True
      show ?thesis
        using sp all_spaces_last [OF sp True] word_count_skip_spaces [OF sp, of cs]
        by (simp add: True)
    next
      case False
      then have "\<not> is_space (hd (dropWhile is_space cs))"
        by (simp add: hd_dropWhile)
      then show ?thesis
        using sp False 2(1) [OF sp] word_count_skip_spaces [OF sp, of cs]
          last_after_spaces [OF False, of c]
        by simp
    qed
  next
    case False
    then show ?thesis
      using 2(2) [OF False] by (cases cs) auto
  qed
qed

lemma length_js_split_ws_trimmed:
  assumes "s \<noteq> []" and "\<not> is_space (hd s)" and "\<not> is_space (last s)"
  shows "length (js_split_ws s) = word_count s"
  using assms by (simp add: js_split_ws_def length_split_ws_from)

lemma update_effect:
  assumes found: "findById s_id (scripts st) sid = Some script"
    and valid: "script_valid script" and content: "content \<noteq> []"
  shows "findById s_id (scripts (snd (scriptController_update now sid content editedBy st))) sid
       = Some (script\<lparr>s_versions := s_versions script @
                         [\<lparr>sv_content = s_content script, sv_createdAt = now,
                           sv_createdBy = or_default editedBy ''admin''\<rparr>],
                      s_content := content,
                      s_wordCount := int (length (js_split_ws content)),
                      s_estimatedDuration := \<lceil>real (length (js_split_ws content)) / 2.5\<rceil>,
                      s_status := S_pending_approval\<rparr>)"
proof -
  note u = update_succeeds [OF found valid content, of now editedBy]
  show ?thesis
    using found findById_id [OF found]
    by (simp add: update_ok(2) [OF found u] findById_findOneAndUpdate estimated_duration_def)
qed

text \<open>
  Claim C6, at the content \<^verbatim>\<open>"one two three four five "\<close>. The handler stores the
  number of pieces of \<^verbatim>\<open>content.split(/\s+/)\<close>, here 6 because of the empty piece
  after the last space, and the duration 3 computed from it; the text has 5 words, for
  which the duration model gives 2.
\<close>

theorem update_wordCount_trailing_space:
  "map s_wordCount (scripts (snd (scriptController_update 5 7 ''one two three four five '' None example_state))) = [6]
   \<and> map s_estimatedDuration (scripts (snd (scriptController_update 5 7 ''one two three four five '' None example_state))) = [3]
   \<and> word_count ''one two three four five '' = 5
   \<and> estimated_duration 5 = 2"
  by (simp add: scriptController_update_def findById_def example_defs save_script_def
      script_valid_def Let_def js_split_ws_def is_space_def estimated_duration_eq)

subsection \<open>Approving\<close>

lemma scriptController_approve_found:
  assumes "findById s_id (scripts st) sid = Some script"
  shows "scriptController_approve now sid approvedBy st =
     (ok (ScriptData (script\<lparr>s_status := S_approved,
                             s_approvedBy := Some (or_default approvedBy ''admin''),
                             s_approvedAt := Some now\<rparr>)) ''Script approved'',
      st\<lparr>scripts := findOneAndUpdate (\<lambda>d. s_id d = sid)
                      (\<lambda>_. script\<lparr>s_status := S_approved,
                                   s_approvedBy := Some (or_default approvedBy ''admin''),
                                   s_approvedAt := Some now\<rparr>) (scripts st),
         listings := findOneAndUpdate (\<lambda>l. l_stockNumber l = s_listingId script)
                       (\<lambda>l. l\<lparr>l_status := L_script_approved\<rparr>) (listings st)\<rparr>)"
  using assms by (simp add: scriptController_approve_def Let_def)

lemma videoController_approve_found:
  assumes "findById v_id (videos st) vid = Some video"
  shows "videoController_approve now vid approvedBy st =
     (ok (VideoData (video\<lparr>v_status := V_approved,
                           v_approvedBy := Some (or_default approvedBy ''admin''),
                           v_approvedAt := Some now\<rparr>)) ''Video approved'',
      st\<lparr>videos := findOneAndUpdate (\<lambda>d. v_id d = vid)
                      (\<lambda>_. video\<lparr>v_status := V_approved,
                                  v_approvedBy := Some (or_default approvedBy ''admin''),
                                  v_approvedAt := Some now\<rparr>) (videos st),
         listings := findOneAndUpdate (\<lambda>l. l_stockNumber l = v_listingId video)
                       (\<lambda>l. l\<lparr>l_status := L_video_approved\<rparr>) (listings st)\<rparr>)"
  using assms by (simp add: videoController_approve_def Let_def)

text \<open>
  Claim C3 says that approving an artifact that is not in its reviewable state fails and
  changes nothing. The handlers do not read the current status. Approving the script of
  the example store, whose status is \<^verbatim>\<open>draft\<close>, answers 200 and stores the status
  \<^verbatim>\<open>approved\<close>.
\<close>

theorem approve_draft_script_counterexample:
  "s_status example_script = S_draft
   \<and> findById s_id (scripts example_state) 7 = Some example_script
   \<and> fst (scriptController_approve 5 7 None example_state)
       = ok (ScriptData (example_script\<lparr>s_status := S_approved, s_approvedBy := Some ''admin'',
                                          s_approvedAt := Some 5\<rparr>)) ''Script approved''
   \<and> code (fst (scriptController_approve 5 7 None example_state)) = 200
   \<and> map s_status (scripts (snd (scriptController_approve 5 7 None example_state))) = [S_approved]"
  by (simp add: scriptController_approve_def findById_def example_defs Let_def ok_def or_default_def)

text \<open>
  Claim C3 as amended. Approving performs no check of the current status: for every
  script that exists, whatever its status, \<^verbatim>\<open>scriptController.approve\<close> succeeds, stores
  the status \<^verbatim>\<open>approved\<close> with \<^verbatim>\<open>approvedBy\<close> and \<^verbatim>\<open>approvedAt\<close>, and
  sets the parent listing, when there is one, to \<^verbatim>\<open>script_approved\<close>;
  \<^verbatim>\<open>videoController.approve\<close> does the same for a video with \<^verbatim>\<open>video_approved\<close>.
  The only failure is an id that is not found: 404, and the store is unchanged.
\<close>

theorem approve_ignores_status:
  "(findById s_id (scripts st) sid = Some script \<longrightarrow>
      fst (scriptController_approve now sid approvedBy st)
        = ok (ScriptData (script\<lparr>s_status := S_approved,
                                  s_approvedBy := Some (or_default approvedBy ''admin''),
                                  s_approvedAt := Some now\<rparr>)) ''Script approved''
      \<and> findById s_id (scripts (snd (scriptController_approve now sid approvedBy st))) sid
        = Some (script\<lparr>s_status := S_approved,
                       s_approvedBy := Some (or_default approvedBy ''admin''),
                       s_approvedAt := Some now\<rparr>)
      \<and> find (\<lambda>l. l_stockNumber l = s_listingId script)
           (listings (snd (scriptController_approve now sid approvedBy st)))
        = map_option (\<lambda>l. l\<lparr>l_status := L_script_approved\<rparr>)
            (find (\<lambda>l. l_stockNumber l = s_listingId script) (listings st)))
   \<and> (findById s_id (scripts st) sid = None \<longrightarrow>
      scriptController_approve now sid approvedBy st = (failed 404 ''Script not found'', st))
   \<and> (findById v_id (videos st) vid = Some video \<longrightarrow>
      fst (videoController_approve now vid approvedBy st)
        = ok (VideoData (video\<lparr>v_status := V_approved,
                                v_approvedBy := Some (or_default approvedBy ''admin''),
                                v_approvedAt := Some now\<rparr>)) ''Video approved''
      \<and> findById v_id (videos (snd (videoController_approve now vid approvedBy st))) vid
        = Some (video\<lparr>v_status := V_approved,
                      v_approvedBy := Some (or_default approvedBy ''admin''),
                      v_approvedAt := Some now\<rparr>)
      \<and> find (\<lambda>l. l_stockNumber l = v_listingId video)
           (listings (snd (videoController_approve now vid approvedBy st)))
        = map_option (\<lambda>l. l\<lparr>l_status := L_video_approved\<rparr>)
            (find (\<lambda>l. l_stockNumber l = v_listingId video) (listings st)))
   \<and> (findById v_id (videos st) vid = None \<longrightarrow>
      videoController_approve now vid approvedBy st = (failed 404 ''Video not found'', st))"
proof (intro conjI impI)
  assume f: "findById s_id (scripts st) sid = Some script"
  note r = scriptController_approve_found [OF f]
  show "fst (scriptController_approve now sid approvedBy st)
        = ok (ScriptData (script\<lparr>s_status := S_approved,
                                  s_approvedBy := Some (or_default approvedBy ''admin''),
                                  s_approvedAt := Some now\<rparr>)) ''Script approved''"
    by (simp add: r)
  show "findById s_id (scripts (snd (scriptController_approve now sid approvedBy st))) sid
        = Some (script\<lparr>s_status := S_approved,
                       s_approvedBy := Some (or_default approvedBy ''admin''),
                       s_approvedAt := Some now\<rparr>)"
    using f findById_id [OF f] by (simp add: r findById_findOneAndUpdate)
  show "find (\<lambda>l. l_stockNumber l = s_listingId script)
           (listings (snd (scriptController_approve now sid approvedBy st)))
        = map_option (\<lambda>l. l\<lparr>l_status := L_script_approved\<rparr>)
            (find (\<lambda>l. l_stockNumber l = s_listingId script) (listings st))"
    by (simp add: r find_findOneAndUpdate)
next
  assume "findById s_id (scripts st) sid = None"
  then show "scriptController_approve now sid approvedBy st = (failed 404 ''Script not found'', st)"
    by (simp add: scriptController_approve_def)
next
  assume f: "findById v_id (videos st) vid = Some video"
  note r = videoController_approve_found [OF f]
  show "fst (videoController_approve now vid approvedBy st)
        = ok (VideoData (video\<lparr>v_status := V_approved,
                                v_approvedBy := Some (or_default approvedBy ''admin''),
                                v_approvedAt := Some now\<rparr>)) ''Video approved''"
    by (simp add: r)
  show "findById v_id (videos (snd (videoController_approve now vid approvedBy st))) vid
        = Some (video\<lparr>v_status := V_approved,
                      v_approvedBy := Some (or_default approvedBy ''admin''),
                      v_approvedAt := Some now\<rparr>)"
    using f findById_id [OF f] by (simp add: r findById_findOneAndUpdate)
  show "find (\<lambda>l. l_stockNumber l = v_listingId video)
           (listings (snd (videoController_approve now vid approvedBy st)))
        = map_option (\<lambda>l. l\<lparr>l_status := L_video_approved\<rparr>)
            (find (\<lambda>l. l_stockNumber l = v_listingId video) (listings st))"
    by (simp add: r find_findOneAndUpdate)
next
  assume "findById v_id (videos st) vid = None"
  then show "videoController_approve now vid approvedBy st = (failed 404 ''Video not found'', st)"
    by (simp add: videoController_approve_def)
qed

theorem approve_ignores_status_witness:
  "findById s_id (scripts example_state) 7 = Some example_script
   \<and> s_status example_script = S_draft
   \<and> findById s_id (scripts (snd (scriptController_approve 5 7 None example_state))) 7
        = Some (example_script\<lparr>s_status := S_approved, s_approvedBy := Some ''admin'',
                               s_approvedAt := Some 5\<rparr>)
   \<and> findById s_id (scripts example_state) 8 = None
   \<and> scriptController_approve 5 8 None example_state = (failed 404 ''Script not found'', example_state)
   \<and> findById v_id (videos example_state) 9 = Some example_video
   \<and> findById v_id (videos (snd (videoController_approve 5 9 None example_state))) 9
        = Some (example_video\<lparr>v_status := V_approved, v_approvedBy := Some ''admin'',
                              v_approvedAt := Some 5\<rparr>)
   \<and> findById v_id (videos example_state) 8 = None
   \<and> videoController_approve 5 8 None example_state = (failed 404 ''Video not found'', example_state)"
proof -
  have s: "findById s_id (scripts example_state) 7 = Some example_script"
    and sn: "findById s_id (scripts example_state) 8 = None"
    and v: "findById v_id (videos example_state) 9 = Some example_video"
    and vn: "findById v_id (videos example_state) 8 = None"
    and d: "s_status example_script = S_draft"
    by (simp_all add: findById_def example_defs)
  show ?thesis
    using s sn v vn d
      approve_ignores_status [of example_state 7 example_script 5 None 9 example_video]
      approve_ignores_status [of example_state 8 example_script 5 None 8 example_video]
    by (simp add: or_default_def)
qed

subsection \<open>Rejecting\<close>

lemma scriptController_reject_found:
  assumes "findById s_id (scripts st) sid = Some script"
  shows "scriptController_reject sid reason st =
     (ok (ScriptData (script\<lparr>s_status := S_rejected, s_rejectionReason := Some reason\<rparr>))
        ''Script rejected'',
      st\<lparr>scripts := findOneAndUpdate (\<lambda>d. s_id d = sid)
                      (\<lambda>_. script\<lparr>s_status := S_rejected, s_rejectionReason := Some reason\<rparr>)
                      (scripts st)\<rparr>)"
  using assms by (simp add: scriptController_reject_def Let_def)

lemma videoController_reject_found:
  assumes "findById v_id (videos st) vid = Some video"
  shows "videoController_reject vid st =
     (ok (VideoData (video\<lparr>v_status := V_rejected\<rparr>)) ''Video rejected'',
      st\<lparr>videos := findOneAndUpdate (\<lambda>d. v_id d = vid) (\<lambda>_. video\<lparr>v_status := V_rejected\<rparr>)
                     (videos st)\<rparr>)"
  using assms by (simp add: videoController_reject_def Let_def)

text \<open>
  Claim C8 says that a rejection with an empty reason fails with a validation error and
  changes nothing. \<^verbatim>\<open>scriptController.reject\<close> stores whatever reason the body
  carries: with the empty reason on the script of the example store it answers 200, the
  status becomes \<^verbatim>\<open>rejected\<close> and the stored reason is the empty string.
\<close>

theorem reject_empty_reason_counterexample:
  "findById s_id (scripts example_state) 7 = Some example_script
   \<and> code (fst (scriptController_reject 7 [] example_state)) = 200
   \<and> map s_status (scripts (snd (scriptController_reject 7 [] example_state))) = [S_rejected]
   \<and> map s_rejectionReason (scripts (snd (scriptController_reject 7 [] example_state))) = [Some []]
   \<and> map s_status (scripts example_state) = [S_draft]"
  by (simp add: scriptController_reject_def findById_def example_defs Let_def ok_def)

text \<open>
  Claim C8 as amended. A reason is not mandatory: for every script that exists and every
  reason, the empty one included, \<^verbatim>\<open>scriptController.reject\<close> succeeds, sets the status
  to \<^verbatim>\<open>rejected\<close> and stores the reason as given; \<^verbatim>\<open>videoController.reject\<close>
  takes no reason at all and sets the status of every video that exists to
  \<^verbatim>\<open>rejected\<close>. Both leave every listing, so the parent listing's status, unchanged.
\<close>

theorem reject_needs_no_reason:
  "(findById s_id (scripts st) sid = Some script \<longrightarrow>
      fst (scriptController_reject sid reason st)
        = ok (ScriptData (script\<lparr>s_status := S_rejected, s_rejectionReason := Some reason\<rparr>))
            ''Script rejected''
      \<and> findById s_id (scripts (snd (scriptController_reject sid reason st))) sid
        = Some (script\<lparr>s_status := S_rejected, s_rejectionReason := Some reason\<rparr>)
      \<and> listings (snd (scriptController_reject sid reason st)) = listings st)
   \<and> (findById v_id (videos st) vid = Some video \<longrightarrow>
      fst (videoController_reject vid st)
        = ok (VideoData (video\<lparr>v_status := V_rejected\<rparr>)) ''Video rejected''
      \<and> findById v_id (videos (snd (videoController_reject vid st))) vid
        = Some (video\<lparr>v_status := V_rejected\<rparr>)
      \<and> listings (snd (videoController_reject vid st)) = listings st)"
proof (intro conjI impI)
  assume f: "findById s_id (scripts st) sid = Some script"
  note r = scriptController_reject_found [OF f]
  show "fst (scriptController_reject sid reason st)
        = ok (ScriptData (script\<lparr>s_status := S_rejected, s_rejectionReason := Some reason\<rparr>))
            ''Script rejected''"
    by (simp add: r)
  show "findById s_id (scripts (snd (scriptController_reject sid reason st))) sid
        = Some (script\<lparr>s_status := S_rejected, s_rejectionReason := Some reason\<rparr>)"
    using f findById_id [OF f] by (simp add: r findById_findOneAndUpdate)
  show "listings (snd (scriptController_reject sid reason st)) = listings st"
    by (simp add: r)
next
  assume f: "findById v_id (videos st) vid = Some video"
  note r = videoController_reject_found [OF f]
  show "fst (videoController_reject vid st)
        = ok (VideoData (video\<lparr>v_status := V_rejected\<rparr>)) ''Video rejected''"
    by (simp add: r)
  show "findById v_id (videos (snd (videoController_reject vid st))) vid
        = Some (video\<lparr>v_status := V_rejected\<rparr>)"
    using f findById_id [OF f] by (simp add: r findById_findOneAndUpdate)
  show "listings (snd (videoController_reject vid st)) = listings st"
    by (simp add: r)
qed

theorem reject_needs_no_reason_witness:
  "findById s_id (scripts example_state) 7 = Some example_script
   \<and> findById s_id (scripts (snd (scriptController_reject 7 [] example_state))) 7
        = Some (example_script\<lparr>s_status := S_rejected, s_rejectionReason := Some []\<rparr>)
   \<and> listings (snd (scriptController_reject 7 [] example_state)) = listings example_state
   \<and> findById v_id (videos example_state) 9 = Some example_video
   \<and> findById v_id (videos (snd (videoController_reject 9 example_state))) 9
        = Some (example_video\<lparr>v_status := V_rejected\<rparr>)
   \<and> listings (snd (videoController_reject 9 example_state)) = listings example_state"
proof -
  have s: "findById s_id (scripts example_state) 7 = Some example_script"
    and v: "findById v_id (videos example_state) 9 = Some example_video"
    by (simp_all add: findById_def example_defs)
  show ?thesis
    using s v reject_needs_no_reason [of example_state 7 example_script "[]" 9 example_video]
    by simp
qed

subsection \<open>Publishing\<close>

lemma videoController_publish_approved:
  assumes "findById v_id (videos st) vid = Some video"
    and "v_status video = V_approved" and "video_valid video"
  shows "videoController_publish now vid channelId st =
     (ok (VideoData (video\<lparr>v_status := V_published, v_publishedAt := Some now,
                           v_fastChannelId := channelId\<rparr>)) ''Video published'',
      st\<lparr>videos := findOneAndUpdate (\<lambda>x. v_id x = vid)
                     (\<lambda>_. video\<lparr>v_status := V_published, v_publishedAt := Some now,
                                 v_fastChannelId := channelId\<rparr>) (videos st),
         listings := findOneAndUpdate (\<lambda>l. l_stockNumber l = v_listingId video)
                       (\<lambda>l. l\<lparr>l_status := L_published\<rparr>) (listings st)\<rparr>)"
  using assms findById_id [OF assms(1)]
  by (simp add: videoController_publish_def Let_def save_video_def video_valid_def)

text \<open>
  Claim C9. For a video that exists: when its status is not \<^verbatim>\<open>approved\<close>,
  \<^verbatim>\<open>publish\<close> answers 400 and the store (the video with its status,
  \<^verbatim>\<open>publishedAt\<close> and \<^verbatim>\<open>fastChannelId\<close>, and every listing) is unchanged; when its
  status is \<^verbatim>\<open>approved\<close> and the stored document satisfies its schema, so that
  \<^verbatim>\<open>save\<close> accepts it, the video gets the status \<^verbatim>\<open>published\<close>,
  \<^verbatim>\<open>publishedAt\<close> is the time of the call, and the parent listing, when there is one,
  gets the status \<^verbatim>\<open>published\<close>.
\<close>

theorem publish_requires_approved:
  assumes found: "findById v_id (videos st) vid = Some video"
  shows "(v_status video \<noteq> V_approved \<longrightarrow>
            videoController_publish now vid channelId st
              = (failed 400 ''Video must be approved before publishing'', st))
       \<and> (v_status video = V_approved \<and> video_valid video \<longrightarrow>
            fst (videoController_publish now vid channelId st)
              = ok (VideoData (video\<lparr>v_status := V_published, v_publishedAt := Some now,
                                      v_fastChannelId := channelId\<rparr>)) ''Video published''
            \<and> findById v_id (videos (snd (videoController_publish now vid channelId st))) vid
              = Some (video\<lparr>v_status := V_published, v_publishedAt := Some now,
                            v_fastChannelId := channelId\<rparr>)
            \<and> find (\<lambda>l. l_stockNumber l = v_listingId video)
                 (listings (snd (videoController_publish now vid channelId st)))
              = map_option (\<lambda>l. l\<lparr>l_status := L_published\<rparr>)
                  (find (\<lambda>l. l_stockNumber l = v_listingId video) (listings st)))"
proof (intro conjI impI)
  assume "v_status video \<noteq> V_approved"
  then show "videoController_publish now vid channelId st
              = (failed 400 ''Video must be approved before publishing'', st)"
    using found by (simp add: videoController_publish_def)
next
  assume a: "v_status video = V_approved \<and> video_valid video"
  then have r: "videoController_publish now vid channelId st =
     (ok (VideoData (video\<lparr>v_status := V_published, v_publishedAt := Some now,
                           v_fastChannelId := channelId\<rparr>)) ''Video published'',
      st\<lparr>videos := findOneAndUpdate (\<lambda>x. v_id x = vid)
                     (\<lambda>_. video\<lparr>v_status := V_published, v_publishedAt := Some now,
                                 v_fastChannelId := channelId\<rparr>) (videos st),
         listings := findOneAndUpdate (\<lambda>l. l_stockNumber l = v_listingId video)
                       (\<lambda>l. l\<lparr>l_status := L_published\<rparr>) (listings st)\<rparr>)"
    using found by (intro videoController_publish_approved) simp_all
  show "fst (videoController_publish now vid channelId st)
              = ok (VideoData (video\<lparr>v_status := V_published, v_publishedAt := Some now,
                                      v_fastChannelId := channelId\<rparr>)) ''Video published''"
    by (simp add: r)
  show "findById v_id (videos (snd (videoController_publish now vid channelId st))) vid
              = Some (video\<lparr>v_status := V_published, v_publishedAt := Some now,
                            v_fastChannelId := channelId\<rparr>)"
    using found findById_id [OF found] by (simp add: r findById_findOneAndUpdate)
  show "find (\<lambda>l. l_stockNumber l = v_listingId video)
                 (listings (snd (videoController_publish now vid channelId st)))
              = map_option (\<lambda>l. l\<lparr>l_status := L_published\<rparr>)
                  (find (\<lambda>l. l_stockNumber l = v_listingId video) (listings st))"
    by (simp add: r find_findOneAndUpdate)
qed


theorem publish_requires_approved_witness:
  "findById v_id (videos (example_state\<lparr>listings := [example_listing\<lparr>l_status := L_video_approved\<rparr>]\<rparr>)) 9
      = Some example_video
   \<and> v_status example_video = V_approved \<and> video_valid example_video
   \<and> findById v_id (videos (snd (videoController_publish 5 9 (Some ''ch1'')
          (example_state\<lparr>listings := [example_listing\<lparr>l_status := L_video_approved\<rparr>]\<rparr>)))) 9
      = Some (example_video\<lparr>v_status := V_published, v_publishedAt := Some 5,
                            v_fastChannelId := Some ''ch1''\<rparr>)
   \<and> map l_status (listings (snd (videoController_publish 5 9 (Some ''ch1'')
          (example_state\<lparr>listings := [example_listing\<lparr>l_status := L_video_approved\<rparr>]\<rparr>))))
      = [L_published]
   \<and> findById v_id (videos (example_state\<lparr>videos := [example_video\<lparr>v_status := V_ready\<rparr>]\<rparr>)) 9
      = Some (example_video\<lparr>v_status := V_ready\<rparr>)
   \<and> v_status (example_video\<lparr>v_status := V_ready\<rparr>) \<noteq> V_approved
   \<and> videoController_publish 5 9 (Some ''ch1'')
          (example_state\<lparr>videos := [example_video\<lparr>v_status := V_ready\<rparr>]\<rparr>)
      = (failed 400 ''Video must be approved before publishing'',
         example_state\<lparr>videos := [example_video\<lparr>v_status := V_ready\<rparr>]\<rparr>)"
proof -
  let ?S1 = "example_state\<lparr>listings := [example_listing\<lparr>l_status := L_video_approved\<rparr>]\<rparr>"
  let ?S2 = "example_state\<lparr>videos := [example_video\<lparr>v_status := V_ready\<rparr>]\<rparr>"
  have f1: "findById v_id (videos ?S1) 9 = Some example_video"
    and f2: "findById v_id (videos ?S2) 9 = Some (example_video\<lparr>v_status := V_ready\<rparr>)"
    and a: "v_status example_video = V_approved" "video_valid example_video"
    and p: "find (\<lambda>l. l_stockNumber l = v_listingId example_video) (listings ?S1)
             = Some (example_listing\<lparr>l_status := L_video_approved\<rparr>)"
    by (simp_all add: findById_def example_defs video_valid_def)
  have l: "listings (snd (videoController_publish 5 9 (Some ''ch1'') ?S1))
             = [example_listing\<lparr>l_status := L_published\<rparr>]"
    unfolding videoController_publish_approved [OF f1 a] by (simp add: example_defs)
  show ?thesis
    using f1 f2 a publish_requires_approved [OF f1, of 5 "Some ''ch1''"]
      publish_requires_approved [OF f2, of 5 "Some ''ch1''"]
    by (simp add: l)
qed

subsection \<open>Regenerating a video\<close>

lemma listingController_regenerateVideo_found:
  assumes "findById l_id (listings st) lid = Some listing" and "listing_valid listing"
  shows "listingController_regenerateVideo outcome lid st =
    (ok (ListingData (listing\<lparr>l_status := L_voiceover_generated,
                              l_assets := (l_assets listing)\<lparr>a_videoPath := None\<rparr>\<rparr>))
       ''Video regeneration started'',
     (case a_videoPath (l_assets listing) of
        None \<Rightarrow> st
      | Some p \<Rightarrow> if p \<noteq> [] \<and> files st p \<noteq> None
                  then st\<lparr>files := (files st)(p := None), trace := trace st @ [FsUnlink p]\<rparr>
                  else st)
     \<lparr>listings := findOneAndUpdate (\<lambda>x. l_id x = lid)
                     (\<lambda>_. listing\<lparr>l_status := L_voiceover_generated,
                                   l_assets := (l_assets listing)\<lparr>a_videoPath := None\<rparr>\<rparr>)
                     (listings st),
      trace := (case a_videoPath (l_assets listing) of
                  None \<Rightarrow> trace st
                | Some p \<Rightarrow> if p \<noteq> [] \<and> files st p \<noteq> None then trace st @ [FsUnlink p]
                            else trace st)
               @ [PipelineGenerateVideo (l_stockNumber listing) (l_dealerId listing) outcome]\<rparr>)"
  using assms findById_id [OF assms(1)]
  by (auto simp: listingController_regenerateVideo_def Let_def save_listing_def listing_valid_def
      existsSync_def unlinkSync_def generateVideo_def split: option.splits)

lemma videoController_regenerate_found:
  assumes "findById v_id (videos st) vid = Some video" and "video_valid video"
  shows "videoController_regenerate outcome vid st =
    (ok (VideoData (video\<lparr>v_status := V_processing\<rparr>)) ''Video regeneration started'',
     (if files st (v_path video) \<noteq> None
      then st\<lparr>files := (files st)(v_path video := None),
              trace := trace st @ [FsUnlink (v_path video)]\<rparr>
      else st)
     \<lparr>videos := findOneAndUpdate (\<lambda>x. v_id x = vid) (\<lambda>_. video\<lparr>v_status := V_processing\<rparr>)
                   (videos st),
      trace := (if files st (v_path video) \<noteq> None then trace st @ [FsUnlink (v_path video)]
                else trace st)
               @ [PipelineGenerateVideo (v_listingId video) (v_dealerId video) outcome]\<rparr>)"
  using assms findById_id [OF assms(1)]
  by (auto simp: videoController_regenerate_def Let_def save_video_def video_valid_def
      existsSync_def unlinkSync_def generateVideo_def)

lemma regenerateVideo_unlinks:
  assumes "findById l_id (listings st) lid = Some listing"
    and "a_videoPath (l_assets listing) = Some p" and "p \<noteq> []" and "files st p \<noteq> None"
  shows "files (snd (listingController_regenerateVideo outcome lid st)) p = None"
  using assms
  by (auto simp: listingController_regenerateVideo_def Let_def save_listing_def
      existsSync_def unlinkSync_def generateVideo_def)

lemma regenerate_unlinks:
  assumes "findById v_id (videos st) vid = Some video" and "files st (v_path video) \<noteq> None"
  shows "files (snd (videoController_regenerate outcome vid st)) (v_path video) = None"
  using assms
  by (auto simp: videoController_regenerate_def Let_def save_video_def
      existsSync_def unlinkSync_def generateVideo_def)

text \<open>
  Claim C2 says that the stale video file is deleted only after the new job is
  dispatched, and that it still exists when the dispatch fails. Both regenerate handlers
  remove the file first and start the pipeline last, without waiting for its result: on
  the example store, with a pipeline run that fails, the request answers 200, the file is
  gone, and the trace shows the removal before the start of the pipeline.
\<close>

theorem regenerate_failed_dispatch_counterexample:
  "files example_state ''output/HD100.mp4'' = Some example_bytes
   \<and> \<not> pr_success pipeline_failure
   \<and> code (fst (listingController_regenerateVideo pipeline_failure 1 example_state)) = 200
   \<and> files (snd (listingController_regenerateVideo pipeline_failure 1 example_state))
        ''output/HD100.mp4'' = None
   \<and> trace (snd (listingController_regenerateVideo pipeline_failure 1 example_state))
        = [FsUnlink ''output/HD100.mp4'', PipelineGenerateVideo ''HD100'' ''D1'' pipeline_failure]
   \<and> code (fst (videoController_regenerate pipeline_failure 9 example_state)) = 200
   \<and> files (snd (videoController_regenerate pipeline_failure 9 example_state))
        ''output/HD100.mp4'' = None
   \<and> trace (snd (videoController_regenerate pipeline_failure 9 example_state))
        = [FsUnlink ''output/HD100.mp4'', PipelineGenerateVideo ''HD100'' ''D1'' pipeline_failure]"
  by (simp add: listingController_regenerateVideo_def videoController_regenerate_def
      findById_def example_defs Let_def save_listing_def save_video_def listing_valid_def
      video_valid_def existsSync_def unlinkSync_def generateVideo_def ok_def
      pipeline_failure_def)

text \<open>
  Claim C2 as amended. For every video-regeneration request on a listing (or a video)
  whose stale video file exists, the file is deleted before the regeneration is
  triggered, and whatever the outcome of the pipeline run: after the request the file
  does not exist, also when the dispatch fails; when the stored document satisfies its
  schema the request answers 200 and its effects are, in this order, the removal of the
  file and the start of the pipeline.
\<close>

theorem regenerate_deletes_before_dispatch:
  "(findById l_id (listings st) lid = Some listing \<and> a_videoPath (l_assets listing) = Some p
      \<and> p \<noteq> [] \<and> files st p \<noteq> None \<longrightarrow>
      files (snd (listingController_regenerateVideo outcome lid st)) p = None
      \<and> (listing_valid listing \<longrightarrow>
           code (fst (listingController_regenerateVideo outcome lid st)) = 200
           \<and> trace (snd (listingController_regenerateVideo outcome lid st))
               = trace st @ [FsUnlink p,
                   PipelineGenerateVideo (l_stockNumber listing) (l_dealerId listing) outcome]))
   \<and> (findById v_id (videos st) vid = Some video \<and> files st (v_path video) \<noteq> None \<longrightarrow>
      files (snd (videoController_regenerate outcome vid st)) (v_path video) = None
      \<and> (video_valid video \<longrightarrow>
           code (fst (videoController_regenerate outcome vid st)) = 200
           \<and> trace (snd (videoController_regenerate outcome vid st))
               = trace st @ [FsUnlink (v_path video),
                   PipelineGenerateVideo (v_listingId video) (v_dealerId video) outcome]))"
proof (intro conjI impI)
  assume a: "findById l_id (listings st) lid = Some listing \<and> a_videoPath (l_assets listing) = Some p
      \<and> p \<noteq> [] \<and> files st p \<noteq> None"
  then show "files (snd (listingController_regenerateVideo outcome lid st)) p = None"
    by (intro regenerateVideo_unlinks [of st lid listing]) simp_all
  assume v: "listing_valid listing"
  from a have f: "findById l_id (listings st) lid = Some listing" by simp
  note r = listingController_regenerateVideo_found [OF f v]
  show "code (fst (listingController_regenerateVideo outcome lid st)) = 200"
    by (simp add: r ok_def)
  show "trace (snd (listingController_regenerateVideo outcome lid st))
               = trace st @ [FsUnlink p,
                   PipelineGenerateVideo (l_stockNumber listing) (l_dealerId listing) outcome]"
    using a by (simp add: r)
next
  assume a: "findById v_id (videos st) vid = Some video \<and> files st (v_path video) \<noteq> None"
  then show "files (snd (videoController_regenerate outcome vid st)) (v_path video) = None"
    by (intro regenerate_unlinks) simp_all
  assume v: "video_valid video"
  from a have f: "findById v_id (videos st) vid = Some video" by simp
  note r = videoController_regenerate_found [OF f v]
  show "code (fst (videoController_regenerate outcome vid st)) = 200"
    by (simp add: r ok_def)
  show "trace (snd (videoController_regenerate outcome vid st))
               = trace st @ [FsUnlink (v_path video),
                   PipelineGenerateVideo (v_listingId video) (v_dealerId video) outcome]"
    using a by (simp add: r)
qed


theorem regenerate_deletes_before_dispatch_witness:
  "findById l_id (listings example_state) 1 = Some example_listing
   \<and> a_videoPath (l_assets example_listing) = Some ''output/HD100.mp4''
   \<and> files example_state ''output/HD100.mp4'' \<noteq> None
   \<and> listing_valid example_listing
   \<and> findById v_id (videos example_state) 9 = Some example_video
   \<and> v_path example_video = ''output/HD100.mp4''
   \<and> video_valid example_video
   \<and> files (snd (listingController_regenerateVideo pipeline_failure 1 example_state))
        ''output/HD100.mp4'' = None
   \<and> trace (snd (listingController_regenerateVideo pipeline_failure 1 example_state))
        = [FsUnlink ''output/HD100.mp4'', PipelineGenerateVideo ''HD100'' ''D1'' pipeline_failure]
   \<and> files (snd (videoController_regenerate pipeline_failure 9 example_state))
        ''output/HD100.mp4'' = None
   \<and> trace (snd (videoController_regenerate pipeline_failure 9 example_state))
        = [FsUnlink ''output/HD100.mp4'', PipelineGenerateVideo ''HD100'' ''D1'' pipeline_failure]"
proof -
  have l: "findById l_id (listings example_state) 1 = Some example_listing"
    and p: "a_videoPath (l_assets example_listing) = Some ''output/HD100.mp4''"
    and e: "files example_state ''output/HD100.mp4'' \<noteq> None"
    and lv: "listing_valid example_listing"
    and v: "findById v_id (videos example_state) 9 = Some example_video"
    and vp: "v_path example_video = ''output/HD100.mp4''"
    and vv: "video_valid example_video"
    and t: "trace example_state = []"
    and n: "l_stockNumber example_listing = ''HD100''" "l_dealerId example_listing = ''D1''"
      "v_listingId example_video = ''HD100''" "v_dealerId example_video = ''D1''"
    by (simp_all add: findById_def example_defs listing_valid_def video_valid_def)
  show ?thesis
    using l p e lv v vp vv
      regenerate_deletes_before_dispatch [of example_state 1 example_listing
        "''output/HD100.mp4''" pipeline_failure 9 example_video]
    by (simp add: t n)
qed

subsection \<open>The job ledger\<close>

lemma handle_jobs: "jobs (snd (handle now rq st)) = jobs st"
proof (cases rq)
  case (PutListingPhotos i urls action)
  then show ?thesis
    by (auto simp: listingController_updatePhotos_def save_listing_def Let_def
        split: option.splits)
next
  case (PostListingRegenerateVideo i outcome)
  then show ?thesis
    by (auto simp: listingController_regenerateVideo_def save_listing_def Let_def
        existsSync_def unlinkSync_def generateVideo_def split: option.splits)
next
  case (DeleteListing i)
  then show ?thesis
    by (auto simp: listingController_delete_def split: option.splits)
next
  case (PutScript i content editedBy)
  then show ?thesis
    by (auto simp: scriptController_update_def save_script_def Let_def split: option.splits)
next
  case (PostScriptApprove i approvedBy)
  then show ?thesis
    by (auto simp: scriptController_approve_def Let_def split: option.splits)
next
  case (PostScriptReject i reason)
  then show ?thesis
    by (auto simp: scriptController_reject_def Let_def split: option.splits)
next
  case (PostScriptRevert i versionIndex)
  then show ?thesis
    by (auto simp: scriptController_revertVersion_def save_script_def Let_def
        split: option.splits)
next
  case (PostVideoApprove i approvedBy)
  then show ?thesis
    by (auto simp: videoController_approve_def Let_def split: option.splits)
next
  case (PostVideoReject i)
  then show ?thesis
    by (auto simp: videoController_reject_def Let_def split: option.splits)
next
  case (PostVideoPublish i channelId)
  then show ?thesis
    by (auto simp: videoController_publish_def save_video_def Let_def split: option.splits)
next
  case (PostVideoRegenerate i outcome)
  then show ?thesis
    by (auto simp: videoController_regenerate_def save_video_def Let_def
        existsSync_def unlinkSync_def generateVideo_def split: option.splits)
next
  case (DeleteVideo i)
  then show ?thesis
    by (auto simp: videoController_delete_def Let_def existsSync_def unlinkSync_def
        split: option.splits)
qed

lemma serve_jobs: "jobs (serve rqs st) = jobs st"
proof (induction rqs arbitrary: st)
  case Nil
  show ?case by simp
next
  case (Cons a rqs)
  obtain now rq where a: "a = (now, rq)" by (cases a)
  show ?case unfolding a by (simp add: Cons.IH handle_jobs)
qed

text \<open>
  Claim C1 says that a regenerate request for a listing with an active job fails with a
  conflict. No handler reads the job ledger: in the example store the listing
  \<^verbatim>\<open>HD100\<close> has a job in \<^verbatim>\<open>processing\<close>, and both regenerate requests for it
  answer 200 ``Video regeneration started''.
\<close>

theorem regenerate_with_active_job_counterexample:
  "l_stockNumber example_listing = ''HD100''
   \<and> active_jobs_of ''HD100'' (jobs example_state) = [example_job]
   \<and> fst (listingController_regenerateVideo
            \<lparr>pr_success = True, pr_output = Some ''Video generation triggered for HD100'',
             pr_error = None\<rparr> 1 example_state)
       = ok (ListingData (example_listing\<lparr>l_status := L_voiceover_generated,
               l_assets := (l_assets example_listing)\<lparr>a_videoPath := None\<rparr>\<rparr>))
            ''Video regeneration started''
   \<and> code (fst (listingController_regenerateVideo
            \<lparr>pr_success = True, pr_output = Some ''Video generation triggered for HD100'',
             pr_error = None\<rparr> 1 example_state)) = 200
   \<and> code (fst (videoController_regenerate
            \<lparr>pr_success = True, pr_output = Some ''Video generation triggered for HD100'',
             pr_error = None\<rparr> 9 example_state)) = 200"
  by (simp add: listingController_regenerateVideo_def videoController_regenerate_def
      findById_def example_defs Let_def save_listing_def save_video_def listing_valid_def
      video_valid_def existsSync_def unlinkSync_def generateVideo_def ok_def
      active_jobs_of_def active_def)

text \<open>
  Claim C1 as amended. No request handler creates or changes a job: after every sequence
  of requests the job ledger is the one before, so the exclusivity property (at most one
  job in \<^verbatim>\<open>queued\<close> or \<^verbatim>\<open>processing\<close> for a listing) holds in every state
  reached from a state where it holds. A regenerate request does not depend on the
  ledger: for a listing (or a video) that exists and satisfies its schema it answers 200
  whether or not the listing has an active job, and it creates no job.
\<close>

theorem handlers_leave_jobs_alone:
  "jobs (serve rqs st) = jobs st
   \<and> (single_active_job (jobs st) \<longrightarrow> single_active_job (jobs (serve rqs st)))
   \<and> (findById l_id (listings st) lid = Some listing \<and> listing_valid listing \<longrightarrow>
        code (fst (listingController_regenerateVideo outcome lid st)) = 200
        \<and> jobs (snd (listingController_regenerateVideo outcome lid st)) = jobs st)
   \<and> (findById v_id (videos st) vid = Some video \<and> video_valid video \<longrightarrow>
        code (fst (videoController_regenerate outcome vid st)) = 200
        \<and> jobs (snd (videoController_regenerate outcome vid st)) = jobs st)"
proof (intro conjI impI)
  show "jobs (serve rqs st) = jobs st" by (rule serve_jobs)
  show "single_active_job (jobs (serve rqs st))" if "single_active_job (jobs st)"
    using that by (simp add: serve_jobs)
next
  assume a: "findById l_id (listings st) lid = Some listing \<and> listing_valid listing"
  then show "code (fst (listingController_regenerateVideo outcome lid st)) = 200"
    by (simp add: listingController_regenerateVideo_found ok_def)
  show "jobs (snd (listingController_regenerateVideo outcome lid st)) = jobs st"
    using handle_jobs [of 0 "PostListingRegenerateVideo lid outcome" st] by simp
next
  assume a: "findById v_id (videos st) vid = Some video \<and> video_valid video"
  then show "code (fst (videoController_regenerate outcome vid st)) = 200"
    by (simp add: videoController_regenerate_found ok_def)
  show "jobs (snd (videoController_regenerate outcome vid st)) = jobs st"
    using handle_jobs [of 0 "PostVideoRegenerate vid outcome" st] by simp
qed

theorem handlers_leave_jobs_alone_witness:
  "single_active_job (jobs example_state)
   \<and> active_jobs_of ''HD100'' (jobs example_state) = [example_job]
   \<and> findById l_id (listings example_state) 1 = Some example_listing
   \<and> listing_valid example_listing
   \<and> findById v_id (videos example_state) 9 = Some example_video
   \<and> video_valid example_video
   \<and> jobs (serve [(5, PostListingRegenerateVideo 1 pipeline_failure),
                   (6, PostVideoRegenerate 9 pipeline_failure)] example_state) = [example_job]
   \<and> single_active_job (jobs (serve [(5, PostListingRegenerateVideo 1 pipeline_failure),
                   (6, PostVideoRegenerate 9 pipeline_failure)] example_state))
   \<and> code (fst (listingController_regenerateVideo pipeline_failure 1 example_state)) = 200
   \<and> jobs (snd (listingController_regenerateVideo pipeline_failure 1 example_state)) = [example_job]
   \<and> code (fst (videoController_regenerate pipeline_failure 9 example_state)) = 200
   \<and> jobs (snd (videoController_regenerate pipeline_failure 9 example_state)) = [example_job]"
proof -
  have s: "single_active_job (jobs example_state)"
    and a: "active_jobs_of ''HD100'' (jobs example_state) = [example_job]"
    and l: "findById l_id (listings example_state) 1 = Some example_listing"
    and lv: "listing_valid example_listing"
    and v: "findById v_id (videos example_state) 9 = Some example_video"
    and vv: "video_valid example_video"
    and j: "jobs example_state = [example_job]"
    by (simp_all add: findById_def example_defs listing_valid_def video_valid_def
        single_active_job_def active_jobs_of_def active_def)
  show ?thesis
    using s a l lv v vv
      handlers_leave_jobs_alone [of "[(5, PostListingRegenerateVideo 1 pipeline_failure),
          (6, PostVideoRegenerate 9 pipeline_failure)]" example_state 1 example_listing
          pipeline_failure 9 example_video]
    by (simp add: j)
qed

subsection \<open>Streaming a video file\<close>

text \<open>
  The decimal digits that \<open>dec\<close> prints are read back by \<open>parseInt\<close>, and they
  contain no dash, so the header \<^verbatim>\<open>bytes=start-end\<close> splits into its two numbers.
\<close>

lemma of_char_digit: "d < 10 \<Longrightarrow> of_char (char_of (48 + d)) = (48 + d :: nat)"
  by simp

lemma is_digit_char_of: "d < 10 \<Longrightarrow> is_digit (char_of (48 + (d::nat)))"
  by (simp add: is_digit_def)

lemma dec_digits: "list_all is_digit (dec n) \<and> dec n \<noteq> []"
proof (induction n rule: dec.induct)
  case (1 n)
  show ?case
  proof (cases "n < 10")
    case True
    then show ?thesis by (subst (1 2) dec.simps) (simp add: is_digit_char_of)
  next
    case False
    then show ?thesis using 1 by (subst (1 2) dec.simps) (simp add: is_digit_char_of)
  qed
qed

lemma digits_value_snoc: "digits_value (ds @ [c]) = 10 * digits_value ds + (of_char c - 48)"
  by (simp add: digits_value_def)

lemma digits_value_dec: "digits_value (dec n) = n"
proof (induction n rule: dec.induct)
  case (1 n)
  show ?case
  proof (cases "n < 10")
    case True
    then show ?thesis by (subst dec.simps) (simp add: digits_value_def)
  next
    case False
    then show ?thesis using 1 by (subst dec.simps) (simp add: digits_value_snoc)
  qed
qed

lemma is_digit_not_special:
  "is_digit c \<Longrightarrow> \<not> is_space c \<and> c \<noteq> CHR ''-'' \<and> c \<noteq> CHR ''+''"
  by (auto simp: is_digit_def is_space_def)

lemma parseInt_digits:
  assumes "ds \<noteq> []" and "list_all is_digit ds"
  shows "parseInt ds = Some (int (digits_value ds))"
proof -
  obtain c cs where ds: "ds = c # cs" using assms(1) by (cases ds) auto
  have c: "is_digit c" using assms(2) ds by simp
  have tw: "takeWhile is_digit cs = cs" using assms(2) ds by (simp add: list_all_iff)
  show ?thesis
    using is_digit_not_special [OF c] c
    by (simp add: parseInt_def ds Let_def tw)
qed

lemma parseInt_dec: "parseInt (dec n) = Some (int n)"
  using dec_digits [of n] by (simp add: parseInt_digits digits_value_dec)

lemma dash_notin_dec: "CHR ''-'' \<notin> set (dec n)"
  using dec_digits [of n] is_digit_not_special by (auto simp: list_all_iff)

lemma js_split_no_sep: "sep \<notin> set s \<Longrightarrow> js_split sep s = [s]"
  by (induction s) auto

lemma js_split_at_sep: "sep \<notin> set a \<Longrightarrow> js_split sep (a @ sep # b) = a # js_split sep b"
  by (induction a) auto

lemma js_num_str_nat: "js_num_str (Some (int n)) = dec n"
  by (simp add: js_num_str_def)

lemma range_parts:
  "js_split CHR ''-'' (js_replace_first ''bytes='' [] (''bytes='' @ dec a @ ''-'' @ dec b))
     = [dec a, dec b]"
  by (simp add: js_split_at_sep js_split_no_sep dash_notin_dec)

lemma take_drop_span:
  assumes "a \<le> b" and "b < length xs"
  shows "take (Suc b - a) (drop a xs) = map ((!) xs) [a..<Suc b]"
  using assms by (auto intro!: nth_equalityI simp del: upt_Suc)

text \<open>
  Claim C7. For a video whose file exists with \<open>length bytes\<close> bytes: a request with
  the header \<^verbatim>\<open>Range: bytes=start-end\<close>, where \<open>start \<le> end < length bytes\<close>, is
  answered 206 with \<^verbatim>\<open>Content-Range: bytes start-end/fileSize\<close>,
  \<^verbatim>\<open>Accept-Ranges: bytes\<close>, \<^verbatim>\<open>Content-Length: end-start+1\<close>,
  \<^verbatim>\<open>Content-Type: video/mp4\<close> and a body that is exactly the bytes at the positions
  \<open>start, \<dots>, end\<close> of the file; a request without a Range header is answered 200
  with \<^verbatim>\<open>Content-Length: fileSize\<close> and the whole file. The numbers of the header
  are in decimal notation. The example is the scenario of the specification: a file of
  1000 bytes and the range 0-99.
\<close>

theorem stream_range_and_full:
  assumes "findById v_id (videos st) vid = Some video"
    and "files st (v_path video) = Some bytes"
  shows "(start \<le> end' \<and> end' < length bytes \<longrightarrow>
           videoController_stream (Some (''bytes='' @ dec start @ ''-'' @ dec end')) vid st
             = Stream 206
                 [(''Content-Range'',
                   ''bytes '' @ dec start @ ''-'' @ dec end' @ ''/'' @ dec (length bytes)),
                  (''Accept-Ranges'', ''bytes''),
                  (''Content-Length'', dec (end' - start + 1)),
                  (''Content-Type'', ''video/mp4'')]
                 (map ((!) bytes) [start..<Suc end'])
           \<and> length (map ((!) bytes) [start..<Suc end']) = end' - start + 1)
       \<and> videoController_stream None vid st
             = Stream 200
                 [(''Content-Length'', dec (length bytes)), (''Content-Type'', ''video/mp4'')]
                 bytes"
proof (intro conjI impI)
  assume a: "start \<le> end' \<and> end' < length bytes"
  have cs: "int end' - int start + 1 = int (Suc (end' - start))" using a by linarith
  have cl: "js_num_str (Some (int end' - int start + 1)) = dec (Suc (end' - start))"
    by (simp only: cs js_num_str_nat)
  have n: "nat (int end' - int start + 1) = Suc end' - start" using a by linarith
  have body: "take (nat (int end' - int start + 1)) (drop start bytes)
                = map ((!) bytes) [start..<Suc end']"
    using a by (simp only: n take_drop_span)
  show "videoController_stream (Some (''bytes='' @ dec start @ ''-'' @ dec end')) vid st
             = Stream 206
                 [(''Content-Range'',
                   ''bytes '' @ dec start @ ''-'' @ dec end' @ ''/'' @ dec (length bytes)),
                  (''Accept-Ranges'', ''bytes''),
                  (''Content-Length'', dec (end' - start + 1)),
                  (''Content-Type'', ''video/mp4'')]
                 (map ((!) bytes) [start..<Suc end'])"
    using a dec_digits [of end']
    by (simp add: videoController_stream_def assms Let_def or_default_def
        range_parts [simplified] parseInt_dec createReadStream_def
        js_num_str_nat cl body del: upt_Suc)
  show "length (map ((!) bytes) [start..<Suc end']) = end' - start + 1"
    using a by simp
next
  show "videoController_stream None vid st
             = Stream 200
                 [(''Content-Length'', dec (length bytes)), (''Content-Type'', ''video/mp4'')]
                 bytes"
    by (simp add: videoController_stream_def assms js_num_str_nat)
qed


theorem stream_range_and_full_witness:
  "findById v_id (videos example_state) 9 = Some example_video
   \<and> files example_state (v_path example_video) = Some example_bytes
   \<and> length example_bytes = 1000
   \<and> videoController_stream (Some ''bytes=0-99'') 9 example_state
       = Stream 206
           [(''Content-Range'', ''bytes 0-99/1000''), (''Accept-Ranges'', ''bytes''),
            (''Content-Length'', ''100''), (''Content-Type'', ''video/mp4'')]
           (take 100 example_bytes)
   \<and> videoController_stream None 9 example_state
       = Stream 200 [(''Content-Length'', ''1000''), (''Content-Type'', ''video/mp4'')]
           example_bytes"
proof -
  have f: "findById v_id (videos example_state) 9 = Some example_video"
    and fl: "files example_state (v_path example_video) = Some example_bytes"
    by (simp_all add: findById_def example_defs)
  have len: "length example_bytes = 1000"
    by (simp add: example_bytes_def)
  have d: "dec 0 = ''0''" "dec 99 = ''99''" "dec 100 = ''100''" "dec 1000 = ''1000''"
    by code_simp+
  have b: "map ((!) example_bytes) [0..<100] = take 100 example_bytes"
    using take_drop_span [of 0 99 example_bytes] by (simp add: len del: upt_Suc)
  show ?thesis
    using f fl len stream_range_and_full [OF f fl, of 0 99]
    by (simp add: d b del: upt_Suc)
qed

end
